theory Spec2Isabelle
  imports Main
begin

section \<open>The capture script: data, effects and errors\<close>

text \<open>
  The script drives a browser through a third-party automation library, writes files and
  starts a process. None of that can be computed here, so the model splits it in two:
  what the script does to the outside world is a list of events, in the order of the
  calls, and what the outside world answers is a record of answers (\<open>world\<close>), a parameter
  of every function. Theorems hold for every such record.

  Python text is modelled as \<open>string\<close>, one character for one code point.
  Exceptions are values of Python's class \<open>Exception\<close>; an exception carries its class
  and the text \<open>str(e)\<close> gives. The operator's interrupt is a signal that can arrive
  between any two instructions and is outside the model. Every call the script makes
  inside a \<open>try\<close> block of \<open>save_webpage\<close>, of the retry loop or of
  \<open>execute_crawler\<close> may raise, except logging, sleeping and closing the browser, which
  return; so does starting the browser, which the script calls outside the loop.
\<close>

datatype level = INFO | WARNING | ERROR

datatype exn_class =
  TimeoutException | NoSuchElementException | CalledProcessError | OtherException

datatype exn = Exn exn_class string

fun class_of :: "exn \<Rightarrow> exn_class" where
  "class_of (Exn c m) = c"

fun str_exn :: "exn \<Rightarrow> string" where
  "str_exn (Exn c m) = m"

text \<open>
  The two exception classes the script raises itself come from the automation library,
  whose \<open>__str__\<close> renders the message given to the constructor as
  \<^verbatim>\<open>Message: <msg>\n\<close>.
\<close>

definition selenium_exn :: "exn_class \<Rightarrow> string \<Rightarrow> exn" where
  "selenium_exn c msg = Exn c (''Message: '' @ msg @ [CHR 0x0A])"

type_synonym element = nat

datatype locator = By_ID string | By_CSS_SELECTOR string

datatype keys = Text string | RETURN

datatype event =
    Log level string
  | Sleep nat
  | Prompt string
  | Chrome "string list"
  | Get string
  | WaitReady nat
  | WaitClickable locator
  | WaitPresence locator
  | Click element
  | Clear element
  | SendKeys element keys
  | Script string
  | Quit
  | MakeDirs string
  | OpenWrite string string
  | Write string string
  | Screenshot string
  | Run "string list"

record datetime =
  year :: int
  month :: int
  day :: int
  hour :: int
  minute :: int
  second :: int

text \<open>
  The answers of the browser, the file system and the clock during one attempt. An
  answer of type \<open>exn option\<close> is \<open>None\<close> when the call returns and \<open>Some e\<close> when it
  raises \<open>e\<close>; an answer of type \<open>exn + 'a\<close> is \<open>Inr\<close> of the value returned or \<open>Inl\<close>
  of the exception raised. \<open>kb_text\<close> is the rendering of \<open>file_size/1024\<close> with one
  decimal, a floating-point format that is not computed here. The script asks twice
  whether the page is ready and twice whether the HTML file exists, at different times,
  so each question has an answer of its own.
\<close>

record world =
  get_r :: "string \<Rightarrow> exn option"
  ready_home_r :: "exn option"
  ready_results_r :: "exn option"
  clickable_r :: "locator \<Rightarrow> exn + element"
  click_r :: "element \<Rightarrow> exn option"
  is_displayed_r :: "element \<Rightarrow> exn + bool"
  clear_r :: "element \<Rightarrow> exn option"
  send_keys_r :: "element \<Rightarrow> keys \<Rightarrow> exn option"
  presence_r :: "locator \<Rightarrow> exn option"
  script_r :: "string \<Rightarrow> exn option"
  getcwd :: string
  makedirs_r :: "string \<Rightarrow> exn option"
  now :: datetime
  page_source_r :: "exn + string"
  open_r :: "string \<Rightarrow> exn option"
  write_r :: "string \<Rightarrow> string \<Rightarrow> exn option"
  save_screenshot_r :: "string \<Rightarrow> exn option"
  exists_r :: "string \<Rightarrow> bool"
  getsize_r :: "string \<Rightarrow> exn + nat"
  kb_text :: "nat \<Rightarrow> string"
  exists_again_r :: "string \<Rightarrow> bool"

subsection \<open>Computations that log, act and may raise\<close>

text \<open>
  A computation yields the value it returns or the exception it raises, together with
  the events it produced.
\<close>

type_synonym 'a prog = "(exn + 'a) \<times> event list"

definition ret :: "'a \<Rightarrow> 'a prog" where
  "ret x = (Inr x, [])"

definition throw :: "exn \<Rightarrow> 'a prog" where
  "throw e = (Inl e, [])"

definition emit :: "event \<Rightarrow> unit prog" where
  "emit ev = (Inr (), [ev])"

definition bnd :: "'a prog \<Rightarrow> ('a \<Rightarrow> 'b prog) \<Rightarrow> 'b prog" where
  "bnd m f =
     (case m of
        (Inl e, t) \<Rightarrow> (Inl e, t)
      | (Inr x, t) \<Rightarrow> (fst (f x), t @ snd (f x)))"

text \<open>\<open>try: m except: h\<close> with a handler that catches every exception.\<close>

definition try_except :: "'a prog \<Rightarrow> (exn \<Rightarrow> 'a prog) \<Rightarrow> 'a prog" where
  "try_except m h =
     (case m of
        (Inl e, t) \<Rightarrow> (fst (h e), t @ snd (h e))
      | (Inr x, t) \<Rightarrow> (Inr x, t))"

text \<open>A call into a library: the call is an event, and it returns or raises.\<close>

definition call :: "event \<Rightarrow> exn option \<Rightarrow> unit prog" where
  "call ev r = bnd (emit ev) (\<lambda>_. case r of None \<Rightarrow> ret () | Some e \<Rightarrow> throw e)"

definition ask :: "event \<Rightarrow> exn + 'a \<Rightarrow> 'a prog" where
  "ask ev r = bnd (emit ev) (\<lambda>_. case r of Inl e \<Rightarrow> throw e | Inr x \<Rightarrow> ret x)"

definition lift :: "exn + 'a \<Rightarrow> 'a prog" where
  "lift r = (case r of Inl e \<Rightarrow> throw e | Inr x \<Rightarrow> ret x)"

definition logging_info :: "string \<Rightarrow> unit prog" where
  "logging_info s = emit (Log INFO s)"

definition logging_warning :: "string \<Rightarrow> unit prog" where
  "logging_warning s = emit (Log WARNING s)"

definition logging_error :: "string \<Rightarrow> unit prog" where
  "logging_error s = emit (Log ERROR s)"

definition time_sleep :: "nat \<Rightarrow> unit prog" where
  "time_sleep n = emit (Sleep n)"

subsection \<open>Text helpers of the standard library\<close>

text \<open>The decimal digits of an integer that is not negative, as \<open>str\<close> prints them.\<close>

definition digit_char :: "int \<Rightarrow> char" where
  "digit_char d = char_of (48 + d)"

function digits :: "int \<Rightarrow> string" where
  "digits n = (if n < 10 then [digit_char n] else digits (n div 10) @ [digit_char (n mod 10)])"
  by pat_completeness auto
termination
  by (relation "measure nat") auto

declare digits.simps [simp del]

definition str_int :: "int \<Rightarrow> string" where
  "str_int i = (if i < 0 then CHR ''-'' # digits (- i) else digits i)"

definition zero_pad :: "nat \<Rightarrow> int \<Rightarrow> string" where
  "zero_pad w n = replicate (w - length (digits n)) (CHR ''0'') @ digits n"

text \<open>
  \<open>strftime("%Y%m%d_%H%M%S")\<close>: the date and the time of day, to the second. The year
  is printed as it is, without padding; the other fields take two digits. A value of
  Python's \<open>datetime\<close> has its year between 1 and 9999, its month between 1 and 12, its
  day between 1 and 31, its hour below 24 and its minute and second below 60.
\<close>

definition strftime :: "datetime \<Rightarrow> string" where
  "strftime d =
     digits (year d) @ zero_pad 2 (month d) @ zero_pad 2 (day d) @ ''_'' @
     zero_pad 2 (hour d) @ zero_pad 2 (minute d) @ zero_pad 2 (second d)"

text \<open>
  \<open>s.replace(old, new)\<close>: the occurrences of \<open>old\<close> in \<open>s\<close> that do not overlap, found
  from the left, are replaced by \<open>new\<close>; an empty \<open>old\<close> matches before every character
  and at the end.
\<close>

function str_replace :: "string \<Rightarrow> string \<Rightarrow> string \<Rightarrow> string" where
  "str_replace old new [] = (if old = [] then new else [])"
| "str_replace old new (c # cs) =
     (if old = [] then new @ c # str_replace old new cs
      else if take (length old) (c # cs) = old
           then new @ str_replace old new (drop (length old) (c # cs))
           else c # str_replace old new cs)"
  by pat_completeness auto
termination
  by (relation "measure (\<lambda>(old, new, s). length s)") auto

text \<open>\<open>os.path.join\<close> of two components, with \<open>/\<close> as the separator.\<close>

definition path_join :: "string \<Rightarrow> string \<Rightarrow> string" where
  "path_join a b =
     (if b \<noteq> [] \<and> hd b = CHR ''/'' then b
      else if a = [] \<or> last a = CHR ''/'' then a @ b
      else a @ ''/'' @ b)"

text \<open>\<open>str.strip()\<close>: white space is removed at both ends.\<close>

definition isspace :: "char \<Rightarrow> bool" where
  "isspace c =
     (let n = of_char c :: nat
      in (9 \<le> n \<and> n \<le> 13) \<or> (28 \<le> n \<and> n \<le> 32) \<or> n = 133 \<or> n = 160)"

definition strip :: "string \<Rightarrow> string" where
  "strip s = rev (dropWhile isspace (rev (dropWhile isspace s)))"

section \<open>Page persistence: \<open>save_webpage\<close>\<close>

record capture_result =
  html_path :: string
  screenshot_path :: "string option"

definition outputs_dir_of :: "world \<Rightarrow> string" where
  "outputs_dir_of w = path_join (getcwd w) ''outputs''"

definition base_filename_of :: "world \<Rightarrow> string \<Rightarrow> string" where
  "base_filename_of w search_query =
     ''ticketmaster_'' @ str_replace '' '' ''_'' search_query @ ''_'' @ strftime (now w)"

definition html_filepath_of :: "world \<Rightarrow> string \<Rightarrow> string" where
  "html_filepath_of w search_query =
     path_join (outputs_dir_of w) (base_filename_of w search_query @ ''.html'')"

definition doctype_line :: string where
  "doctype_line = ''<!DOCTYPE html>'' @ [CHR 0x0A]"

text \<open>
  The body of the \<open>try\<close> block up to the verification: the directory, the HTML file and
  the screenshot. It returns the screenshot's path (\<open>None\<close> when no screenshot is asked
  for).
\<close>

definition save_files :: "world \<Rightarrow> string \<Rightarrow> bool \<Rightarrow> string option prog" where
  "save_files w search_query take_screenshot =
     (let outputs_dir = outputs_dir_of w;
          base_filename = base_filename_of w search_query;
          html_filename = base_filename @ ''.html'';
          html_filepath = path_join outputs_dir html_filename
      in bnd (call (MakeDirs outputs_dir) (makedirs_r w outputs_dir)) (\<lambda>_.
         bnd (logging_info (''Saving HTML to directory: '' @ outputs_dir)) (\<lambda>_.
         bnd (logging_info (''HTML Filename: '' @ html_filename)) (\<lambda>_.
         bnd (lift (page_source_r w)) (\<lambda>page_source.
         bnd (call (OpenWrite html_filepath ''utf-8'') (open_r w html_filepath)) (\<lambda>_.
         bnd (call (Write html_filepath doctype_line) (write_r w html_filepath doctype_line)) (\<lambda>_.
         bnd (call (Write html_filepath page_source) (write_r w html_filepath page_source)) (\<lambda>_.
         if take_screenshot then
           (let shot_path = path_join outputs_dir (base_filename @ ''.png'')
            in bnd (call (Screenshot shot_path) (save_screenshot_r w shot_path)) (\<lambda>_.
               bnd (logging_info (''Screenshot saved: '' @ shot_path)) (\<lambda>_.
               ret (Some shot_path))))
         else ret None))))))))"

text \<open>The verification of the file just written, and the value returned.\<close>

definition verify_files :: "world \<Rightarrow> string \<Rightarrow> string option \<Rightarrow> capture_result option prog" where
  "verify_files w html_filepath shot_path =
     (if exists_r w html_filepath then
        bnd (lift (getsize_r w html_filepath)) (\<lambda>file_size.
        if file_size > 0 then
          bnd (logging_info (''HTML file saved successfully! Size: '' @ kb_text w file_size @ '' KB'')) (\<lambda>_.
          bnd (logging_info (''Full path: '' @ html_filepath)) (\<lambda>_.
          ret (Some \<lparr>html_path = html_filepath, screenshot_path = shot_path\<rparr>)))
        else
          bnd (logging_warning ''HTML file was created but is empty'') (\<lambda>_. ret None))
      else
        bnd (logging_error ''HTML file was not created'') (\<lambda>_. ret None))"

definition save_webpage_body :: "world \<Rightarrow> string \<Rightarrow> bool \<Rightarrow> capture_result option prog" where
  "save_webpage_body w search_query take_screenshot =
     bnd (save_files w search_query take_screenshot)
         (verify_files w (html_filepath_of w search_query))"

definition save_webpage :: "world \<Rightarrow> string \<Rightarrow> bool \<Rightarrow> capture_result option prog" where
  "save_webpage w search_query take_screenshot =
     try_except (save_webpage_body w search_query take_screenshot)
       (\<lambda>e. bnd (logging_error (''Error saving webpage: '' @ str_exn e)) (\<lambda>_. ret None))"

section \<open>One attempt of the search\<close>

text \<open>
  \<open>wait_for_page_load\<close>: the answer of the bounded wait for the ready state is a
  parameter; only a timeout is caught, any other exception leaves the function.
\<close>

definition wait_for_page_load :: "exn option \<Rightarrow> nat \<Rightarrow> bool prog" where
  "wait_for_page_load r timeout =
     bnd (emit (WaitReady timeout)) (\<lambda>_.
       case r of
         None \<Rightarrow> ret True
       | Some e \<Rightarrow>
           if class_of e = TimeoutException
           then bnd (logging_warning ''Page load timeout'') (\<lambda>_. ret False)
           else throw e)"

definition home_url :: string where
  "home_url = ''https://www.ticketmaster.com''"

definition cookie_button_id :: string where
  "cookie_button_id = ''onetrust-accept-btn-handler''"

definition accept_cookies :: "world \<Rightarrow> unit prog" where
  "accept_cookies w =
     try_except
       (bnd (ask (WaitClickable (By_ID cookie_button_id)) (clickable_r w (By_ID cookie_button_id)))
          (\<lambda>cookie_button.
        bnd (call (Click cookie_button) (click_r w cookie_button)) (\<lambda>_.
        time_sleep 1)))
       (\<lambda>e. logging_info ''No cookie consent popup found'')"

definition load_home :: "world \<Rightarrow> unit prog" where
  "load_home w =
     bnd (logging_info ''Loading Ticketmaster...'') (\<lambda>_.
     bnd (call (Get home_url) (get_r w home_url)) (\<lambda>_.
     bnd (wait_for_page_load (ready_home_r w) 30) (\<lambda>loaded.
     if \<not> loaded then throw (selenium_exn TimeoutException ''Page failed to load'')
     else bnd (time_sleep 2) (\<lambda>_. accept_cookies w))))"

definition search_selectors :: "string list" where
  "search_selectors =
     [''input[aria-label=\"Search\"]'',
      ''input[placeholder=\"Search by Artist, Event or Venue\"]'',
      ''input[type=\"search\"]'',
      ''[data-testid=\"search-input\"]'',
      ''.search-input'']"

text \<open>
  The \<open>for\<close> loop over the search selectors. \<open>search_input\<close> is the loop's variable:
  it is assigned as soon as a wait returns an element, before \<open>is_displayed\<close> is asked,
  and nothing resets it.
\<close>

fun probe_search_input :: "world \<Rightarrow> string list \<Rightarrow> element option \<Rightarrow> element option prog" where
  "probe_search_input w [] search_input = ret search_input"
| "probe_search_input w (selector # rest) search_input =
     bnd (emit (WaitClickable (By_CSS_SELECTOR selector))) (\<lambda>_.
       case clickable_r w (By_CSS_SELECTOR selector) of
         Inl e \<Rightarrow> probe_search_input w rest search_input
       | Inr found \<Rightarrow>
           (case is_displayed_r w found of
              Inl e \<Rightarrow> probe_search_input w rest (Some found)
            | Inr displayed \<Rightarrow>
                if displayed then ret (Some found)
                else probe_search_input w rest (Some found)))"

definition find_search_input :: "world \<Rightarrow> element prog" where
  "find_search_input w =
     bnd (probe_search_input w search_selectors None) (\<lambda>search_input.
       case search_input of
         None \<Rightarrow> throw (selenium_exn NoSuchElementException ''Could not find search input'')
       | Some found \<Rightarrow> ret found)"

definition perform_search :: "world \<Rightarrow> element \<Rightarrow> string \<Rightarrow> unit prog" where
  "perform_search w search_input search_query =
     bnd (logging_info ''Entering search query...'') (\<lambda>_.
     bnd (call (Clear search_input) (clear_r w search_input)) (\<lambda>_.
     bnd (call (SendKeys search_input (Text search_query))
            (send_keys_r w search_input (Text search_query))) (\<lambda>_.
     call (SendKeys search_input RETURN) (send_keys_r w search_input RETURN))))"

definition result_selectors :: "string list" where
  "result_selectors =
     [''[data-testid=\"event-card\"]'',
      ''[data-testid=\"search-results\"]'',
      ''.event-listing'',
      ''.search-results'',
      ''.event-list'',
      ''[class*=\"event-\"]'',
      ''[class*=\"result-\"]'']"

fun probe_results :: "world \<Rightarrow> string list \<Rightarrow> bool prog" where
  "probe_results w [] = ret False"
| "probe_results w (selector # rest) =
     bnd (emit (WaitPresence (By_CSS_SELECTOR selector))) (\<lambda>_.
       case presence_r w (By_CSS_SELECTOR selector) of
         Some e \<Rightarrow> probe_results w rest
       | None \<Rightarrow> bnd (logging_info ''Search results found'') (\<lambda>_. ret True))"

definition unconfirmed_warning :: string where
  "unconfirmed_warning = ''Could not confirm results - will try to save anyway''"

definition confirm_results :: "world \<Rightarrow> unit prog" where
  "confirm_results w =
     bnd (probe_results w result_selectors) (\<lambda>results_found.
       if \<not> results_found then logging_warning unconfirmed_warning else ret ())"

definition scroll_bottom :: string where
  "scroll_bottom = ''window.scrollTo(0, document.body.scrollHeight);''"

definition scroll_top :: string where
  "scroll_top = ''window.scrollTo(0, 0);''"

definition load_all_content :: "world \<Rightarrow> unit prog" where
  "load_all_content w =
     bnd (wait_for_page_load (ready_results_r w) 30) (\<lambda>loaded.
     if \<not> loaded then throw (selenium_exn TimeoutException ''Search results page failed to load'')
     else
       bnd (logging_info ''Loading all content...'') (\<lambda>_.
       bnd (call (Script scroll_bottom) (script_r w scroll_bottom)) (\<lambda>_.
       bnd (time_sleep 2) (\<lambda>_.
       bnd (call (Script scroll_top) (script_r w scroll_top)) (\<lambda>_.
       time_sleep 1)))))"

text \<open>
  The end of the \<open>try\<close> block: the page is saved and the attempt returns, with the files
  or with \<open>None\<close>. A dictionary with two keys is true, a path is true when it is not
  empty.
\<close>

definition persist :: "world \<Rightarrow> string \<Rightarrow> capture_result option prog" where
  "persist w search_query =
     bnd (logging_info ''Saving webpage...'') (\<lambda>_.
     bnd (save_webpage w search_query True) (\<lambda>saved_files.
       case saved_files of
         None \<Rightarrow> ret None
       | Some files \<Rightarrow>
           if exists_again_r w (html_path files) then
             bnd (logging_info ''Success! Files saved:'') (\<lambda>_.
             bnd (logging_info (''HTML: '' @ html_path files)) (\<lambda>_.
             bnd (case screenshot_path files of
                    None \<Rightarrow> ret ()
                  | Some p \<Rightarrow> if p \<noteq> [] then logging_info (''Screenshot: '' @ p) else ret ()) (\<lambda>_.
             ret (Some files))))
           else ret None))"

text \<open>The steps of an attempt before the results are confirmed.\<close>

definition submit_query :: "world \<Rightarrow> string \<Rightarrow> unit prog" where
  "submit_query w search_query =
     bnd (load_home w) (\<lambda>_.
     bnd (find_search_input w) (\<lambda>search_input.
     perform_search w search_input search_query))"

text \<open>The body of the \<open>try\<close> block of one iteration of the retry loop.\<close>

definition attempt :: "world \<Rightarrow> string \<Rightarrow> capture_result option prog" where
  "attempt w search_query =
     bnd (submit_query w search_query) (\<lambda>_.
     bnd (confirm_results w) (\<lambda>_.
     bnd (load_all_content w) (\<lambda>_.
     persist w search_query)))"

section \<open>The retry loop: \<open>search_and_save_page\<close>\<close>

text \<open>
  The \<open>finally\<close> clause reads \<open>retry_count\<close> as it is when the \<open>try\<close> statement is
  left: unchanged after a \<open>return\<close> in the body, already incremented after the handler.
\<close>

definition finally_clause :: "int \<Rightarrow> int \<Rightarrow> event list" where
  "finally_clause max_retries retry_count =
     (if retry_count = max_retries \<or> retry_count = 0
      then [Log INFO ''Closing browser...'', Quit] else [])"

text \<open>
  The \<open>while\<close> loop. The attempt entered with the counter at \<open>k\<close> gets the answers
  \<open>worlds k\<close>. When the loop's test fails the function ends without a \<open>return\<close>, which
  yields \<open>None\<close>.
\<close>

function retry_loop :: "(int \<Rightarrow> world) \<Rightarrow> string \<Rightarrow> int \<Rightarrow> int \<Rightarrow> capture_result option prog" where
  "retry_loop worlds search_query max_retries retry_count =
     (if retry_count \<le> max_retries then
        (case attempt (worlds retry_count) search_query of
           (Inr saved, t) \<Rightarrow> (Inr saved, t @ finally_clause max_retries retry_count)
         | (Inl e, t) \<Rightarrow>
             (let failed = t @ [Log ERROR (''Attempt '' @ str_int (retry_count + 1) @ '' failed: '' @ str_exn e)]
              in if retry_count + 1 \<le> max_retries then
                   (fst (retry_loop worlds search_query max_retries (retry_count + 1)),
                    failed @
                    [Log INFO (''Retrying... (Attempt '' @ str_int (retry_count + 1 + 1) @ '')''), Sleep 2] @
                    finally_clause max_retries (retry_count + 1) @
                    snd (retry_loop worlds search_query max_retries (retry_count + 1)))
                 else
                   (Inr None,
                    failed @ [Log ERROR ''Max retries reached. Giving up.''] @
                    finally_clause max_retries (retry_count + 1))))
      else (Inr None, []))"
  by pat_completeness auto
termination
  by (relation "measure (\<lambda>(worlds, search_query, max_retries, retry_count). nat (max_retries + 1 - retry_count))") auto

declare retry_loop.simps [simp del]

definition chrome_options :: "string list" where
  "chrome_options = [''--start-maximized'', ''--disable-notifications'', ''--disable-popup-blocking'']"

definition search_and_save_page :: "(int \<Rightarrow> world) \<Rightarrow> string \<Rightarrow> int \<Rightarrow> capture_result option prog" where
  "search_and_save_page worlds search_query max_retries =
     bnd (logging_info (''Starting search for: '' @ search_query)) (\<lambda>_.
     bnd (emit (Chrome chrome_options)) (\<lambda>_.
     retry_loop worlds search_query max_retries 0))"

section \<open>The hand-over to the crawler and the entry point\<close>

text \<open>
  What the script is started with: the line read from standard input (or the exception
  \<open>input\<close> raises), the answers of the world for each attempt, the interpreter, the
  directory of the script, and what running a command does (\<open>None\<close>: it ends with status
  zero; with \<open>check=True\<close> a non-zero status is raised as \<open>CalledProcessError\<close>, and a
  command that cannot be started raises another exception).
\<close>

record session =
  input_r :: "exn + string"
  worlds_of :: "int \<Rightarrow> world"
  sys_executable :: string
  script_dir :: string
  run_r :: "string list \<Rightarrow> exn option"

definition crawler_command :: "session \<Rightarrow> string list" where
  "crawler_command s = [sys_executable s, path_join (script_dir s) ''crawler.py'']"

definition execute_crawler :: "session \<Rightarrow> unit prog" where
  "execute_crawler s =
     bnd (logging_info ''Starting crawler process...'') (\<lambda>_.
     try_except
       (bnd (call (Run (crawler_command s)) (run_r s (crawler_command s))) (\<lambda>_.
        logging_info ''Crawler process completed successfully''))
       (\<lambda>e. if class_of e = CalledProcessError
            then logging_error (''Error executing crawler: '' @ str_exn e)
            else logging_error (''Unexpected error while executing crawler: '' @ str_exn e)))"

definition prompt_text :: string where
  "prompt_text = CHR 0x0A # ''Enter search query (Artist, Event or Venue): ''"

definition main :: "session \<Rightarrow> unit prog" where
  "main s =
     try_except
       (bnd (ask (Prompt prompt_text) (input_r s)) (\<lambda>line.
        let query = strip line in
        if query \<noteq> [] then
          bnd (search_and_save_page (worlds_of s) query 2) (\<lambda>saved_files.
            case saved_files of
              Some files \<Rightarrow> execute_crawler s
            | None \<Rightarrow> logging_error ''Failed to save the webpage. Please check the logs for details.'')
        else logging_error ''Search query cannot be empty''))
       (\<lambda>e. logging_error (''Unexpected error: '' @ str_exn e))"

section \<open>Observations on the events of a run\<close>

text \<open>
  The events that create, use and close the browser session or start the crawler. The
  loop body navigates to the site once, first thing, so the navigations of a run count
  its attempts.
\<close>

fun lifecycle :: "event \<Rightarrow> bool" where
  "lifecycle (Chrome opts) = True"
| "lifecycle (Get url) = True"
| "lifecycle Quit = True"
| "lifecycle (Run cmd) = True"
| "lifecycle ev = False"

fun is_Get :: "event \<Rightarrow> bool" where
  "is_Get (Get url) = True"
| "is_Get ev = False"

fun is_Run :: "event \<Rightarrow> bool" where
  "is_Run (Run cmd) = True"
| "is_Run ev = False"

fun is_file_write :: "event \<Rightarrow> bool" where
  "is_file_write (OpenWrite p enc) = True"
| "is_file_write (Write p s) = True"
| "is_file_write ev = False"

text \<open>
  The file at a path after a list of events, as its encoding and its text: opening it
  for writing leaves it empty, with the encoding named in the call, and each write
  appends to it.
\<close>

fun file_after :: "string \<Rightarrow> event list \<Rightarrow> (string \<times> string) option \<Rightarrow> (string \<times> string) option" where
  "file_after p [] file = file"
| "file_after p (OpenWrite q enc # t) file =
     file_after p t (if q = p then Some (enc, []) else file)"
| "file_after p (Write q s # t) file =
     file_after p t
       (if q = p then (case file of None \<Rightarrow> None | Some (enc, text) \<Rightarrow> Some (enc, text @ s))
        else file)"
| "file_after p (ev # t) file = file_after p t file"

definition attempts_made :: "event list \<Rightarrow> nat" where
  "attempts_made t = length (filter is_Get t)"

definition quiet :: "'a prog \<Rightarrow> bool" where
  "quiet m = (filter lifecycle (snd m) = [])"

text \<open>The steps of an attempt before the page is saved.\<close>

definition reach_persist :: "world \<Rightarrow> string \<Rightarrow> unit prog" where
  "reach_persist w search_query =
     bnd (submit_query w search_query) (\<lambda>_.
     bnd (confirm_results w) (\<lambda>_.
     load_all_content w))"

section \<open>Sample worlds\<close>

text \<open>
  A world in which every step succeeds at once: no cookie dialog, the first search
  selector and the first result selector match, the files are written. The other worlds
  differ from it in one answer.
\<close>

definition wait_timeout :: exn where
  "wait_timeout = selenium_exn TimeoutException []"

definition calm_world :: world where
  "calm_world =
     \<lparr>get_r = (\<lambda>_. None),
      ready_home_r = None,
      ready_results_r = None,
      clickable_r = (\<lambda>l. if l = By_CSS_SELECTOR (hd search_selectors) then Inr 1 else Inl wait_timeout),
      click_r = (\<lambda>_. None),
      is_displayed_r = (\<lambda>_. Inr True),
      clear_r = (\<lambda>_. None),
      send_keys_r = (\<lambda>_ _. None),
      presence_r = (\<lambda>l. if l = By_CSS_SELECTOR (hd result_selectors) then None else Some wait_timeout),
      script_r = (\<lambda>_. None),
      getcwd = ''/home/user/scraper'',
      makedirs_r = (\<lambda>_. None),
      now = \<lparr>year = 2024, month = 5, day = 17, hour = 10, minute = 30, second = 5\<rparr>,
      page_source_r = Inr ''<html></html>'',
      open_r = (\<lambda>_. None),
      write_r = (\<lambda>_ _. None),
      save_screenshot_r = (\<lambda>_. None),
      exists_r = (\<lambda>_. True),
      getsize_r = (\<lambda>_. Inr 29),
      kb_text = (\<lambda>_. ''0.0''),
      exists_again_r = (\<lambda>_. True)\<rparr>"

text \<open>No selector ever yields a clickable element: the search input is never found.\<close>

definition inputless_world :: world where
  "inputless_world = calm_world\<lparr>clickable_r := (\<lambda>_. Inl wait_timeout)\<rparr>"

text \<open>
  The first search selector yields a clickable element that is no longer displayed when
  the script asks, or that has gone stale by then; the other selectors time out.
\<close>

definition hidden_input_world :: world where
  "hidden_input_world = calm_world\<lparr>is_displayed_r := (\<lambda>_. Inr False)\<rparr>"

definition stale_input_world :: world where
  "stale_input_world =
     calm_world\<lparr>is_displayed_r := (\<lambda>_. Inl (Exn OtherException ''stale element reference''))\<rparr>"

definition shotless_world :: world where
  "shotless_world =
     calm_world\<lparr>save_screenshot_r := (\<lambda>_. Some (Exn OtherException ''screenshot failed''))\<rparr>"

definition missing_file_world :: world where
  "missing_file_world = calm_world\<lparr>exists_r := (\<lambda>_. False)\<rparr>"

definition empty_file_world :: world where
  "empty_file_world = calm_world\<lparr>getsize_r := (\<lambda>_. Inr 0)\<rparr>"

definition unconfirmed_world :: world where
  "unconfirmed_world = calm_world\<lparr>presence_r := (\<lambda>_. Some wait_timeout)\<rparr>"

definition crawler_exit_1 :: exn where
  "crawler_exit_1 = Exn CalledProcessError ''Command returned non-zero exit status 1.''"

definition adele_session :: session where
  "adele_session =
     \<lparr>input_r = Inr ''Adele'', worlds_of = (\<lambda>_. calm_world),
      sys_executable = ''/usr/bin/python3'', script_dir = ''/home/user/scraper'',
      run_r = (\<lambda>_. Some crawler_exit_1)\<rparr>"

definition noshow_session :: session where
  "noshow_session =
     adele_session\<lparr>input_r := Inr ''XYZ123NoShow'', worlds_of := (\<lambda>_. inputless_world)\<rparr>"

definition blank_session :: session where
  "blank_session = adele_session\<lparr>input_r := Inr ''   ''\<rparr>"

definition adele_html :: string where
  "adele_html = ''/home/user/scraper/outputs/ticketmaster_Adele_20240517_103005.html''"

definition adele_png :: string where
  "adele_png = ''/home/user/scraper/outputs/ticketmaster_Adele_20240517_103005.png''"

definition taylor_html :: string where
  "taylor_html = ''/home/user/scraper/outputs/ticketmaster_Taylor_Swift_20240517_103005.html''"

definition taylor_png :: string where
  "taylor_png = ''/home/user/scraper/outputs/ticketmaster_Taylor_Swift_20240517_103005.png''"

section \<open>Laws of the computations\<close>

lemma fst_ret [simp]: "fst (ret x) = Inr x"
  by (simp add: ret_def)

lemma snd_ret [simp]: "snd (ret x) = []"
  by (simp add: ret_def)

lemma fst_throw [simp]: "fst (throw e) = Inl e"
  by (simp add: throw_def)

lemma snd_throw [simp]: "snd (throw e) = []"
  by (simp add: throw_def)

lemma fst_emit [simp]: "fst (emit ev) = Inr ()"
  by (simp add: emit_def)

lemma snd_emit [simp]: "snd (emit ev) = [ev]"
  by (simp add: emit_def)

lemma fst_bnd: "fst (bnd m f) = (case fst m of Inl e \<Rightarrow> Inl e | Inr x \<Rightarrow> fst (f x))"
  by (cases m) (simp add: bnd_def split: sum.splits)

lemma snd_bnd: "snd (bnd m f) = snd m @ (case fst m of Inl e \<Rightarrow> [] | Inr x \<Rightarrow> snd (f x))"
  by (cases m) (simp add: bnd_def split: sum.splits)

lemma bnd_assoc: "bnd (bnd m f) g = bnd m (\<lambda>x. bnd (f x) g)"
  by (cases m) (auto simp: bnd_def split: sum.splits prod.splits)

lemma fst_try: "fst (try_except m h) = (case fst m of Inl e \<Rightarrow> fst (h e) | Inr x \<Rightarrow> Inr x)"
  by (cases m) (simp add: try_except_def split: sum.splits)

lemma snd_try: "snd (try_except m h) = snd m @ (case fst m of Inl e \<Rightarrow> snd (h e) | Inr x \<Rightarrow> [])"
  by (cases m) (simp add: try_except_def split: sum.splits)

lemma fst_call: "fst (call ev r) = (case r of None \<Rightarrow> Inr () | Some e \<Rightarrow> Inl e)"
  by (simp add: call_def fst_bnd split: option.splits)

lemma snd_call [simp]: "snd (call ev r) = [ev]"
  by (simp add: call_def snd_bnd split: option.splits)

lemma fst_ask [simp]: "fst (ask ev r) = r"
  by (simp add: ask_def fst_bnd split: sum.splits)

lemma snd_ask [simp]: "snd (ask ev r) = [ev]"
  by (simp add: ask_def snd_bnd split: sum.splits)

lemma fst_lift [simp]: "fst (lift r) = r"
  by (simp add: lift_def split: sum.splits)

lemma snd_lift [simp]: "snd (lift r) = []"
  by (simp add: lift_def split: sum.splits)

lemma fst_logging [simp]:
  "fst (logging_info s) = Inr ()" "fst (logging_warning s) = Inr ()"
  "fst (logging_error s) = Inr ()" "fst (time_sleep n) = Inr ()"
  by (simp_all add: logging_info_def logging_warning_def logging_error_def time_sleep_def)

lemma snd_logging [simp]:
  "snd (logging_info s) = [Log INFO s]" "snd (logging_warning s) = [Log WARNING s]"
  "snd (logging_error s) = [Log ERROR s]" "snd (time_sleep n) = [Sleep n]"
  by (simp_all add: logging_info_def logging_warning_def logging_error_def time_sleep_def)

section \<open>Which steps touch the session\<close>

lemma quiet_ret: "quiet (ret x)"
  by (simp add: quiet_def)

lemma quiet_throw: "quiet (throw e)"
  by (simp add: quiet_def)

lemma quiet_emit: "\<not> lifecycle ev \<Longrightarrow> quiet (emit ev)"
  by (simp add: quiet_def)

lemma quiet_bnd: "quiet m \<Longrightarrow> (\<And>x. quiet (f x)) \<Longrightarrow> quiet (bnd m f)"
  by (simp add: quiet_def snd_bnd split: sum.splits)

lemma quiet_try: "quiet m \<Longrightarrow> (\<And>e. quiet (h e)) \<Longrightarrow> quiet (try_except m h)"
  by (simp add: quiet_def snd_try split: sum.splits)

lemma quiet_call: "\<not> lifecycle ev \<Longrightarrow> quiet (call ev r)"
  by (simp add: quiet_def)

lemma quiet_ask: "\<not> lifecycle ev \<Longrightarrow> quiet (ask ev r)"
  by (simp add: quiet_def)

lemma quiet_lift: "quiet (lift r)"
  by (simp add: quiet_def)

lemma quiet_log:
  "quiet (logging_info s)" "quiet (logging_warning s)" "quiet (logging_error s)"
  "quiet (time_sleep n)"
  by (simp_all add: quiet_def)

lemmas quiet_intros =
  quiet_ret quiet_throw quiet_emit quiet_bnd quiet_try quiet_call quiet_ask quiet_lift quiet_log

lemma quiet_save_files: "quiet (save_files w q ts)"
  unfolding save_files_def Let_def by (auto intro!: quiet_intros)

lemma quiet_verify_files: "quiet (verify_files w p shot)"
  unfolding verify_files_def by (auto intro!: quiet_intros)

lemma quiet_save_webpage: "quiet (save_webpage w q ts)"
  unfolding save_webpage_def save_webpage_body_def
  by (intro quiet_intros quiet_save_files quiet_verify_files)

lemma quiet_wait: "quiet (wait_for_page_load r n)"
  unfolding wait_for_page_load_def by (auto intro!: quiet_intros split: option.splits)

lemma quiet_cookies: "quiet (accept_cookies w)"
  unfolding accept_cookies_def by (auto intro!: quiet_intros)

lemma quiet_probe_search: "quiet (probe_search_input w sels found)"
  by (induction sels arbitrary: found) (auto intro!: quiet_intros split: sum.splits)

lemma quiet_find: "quiet (find_search_input w)"
  unfolding find_search_input_def
  by (auto intro!: quiet_intros quiet_probe_search split: option.splits)

lemma quiet_perform: "quiet (perform_search w el q)"
  unfolding perform_search_def by (auto intro!: quiet_intros)

lemma quiet_probe_results: "quiet (probe_results w sels)"
  by (induction sels) (auto intro!: quiet_intros split: option.splits)

lemma quiet_confirm: "quiet (confirm_results w)"
  unfolding confirm_results_def by (auto intro!: quiet_intros quiet_probe_results)

lemma quiet_load_all: "quiet (load_all_content w)"
  unfolding load_all_content_def by (auto intro!: quiet_intros quiet_wait)

lemma quiet_persist: "quiet (persist w q)"
  unfolding persist_def
  by (auto intro!: quiet_intros quiet_save_webpage split: option.splits)

lemma lifecycle_load_home: "filter lifecycle (snd (load_home w)) = [Get home_url]"
proof -
  have rest: "quiet (bnd (wait_for_page_load (ready_home_r w) 30) (\<lambda>loaded.
     if \<not> loaded then throw (selenium_exn TimeoutException ''Page failed to load'')
     else bnd (time_sleep 2) (\<lambda>_. accept_cookies w)))"
    by (auto intro!: quiet_intros quiet_wait quiet_cookies)
  then show ?thesis
    unfolding load_home_def quiet_def
    by (simp add: snd_bnd fst_call split: sum.splits option.splits)
qed

lemma lifecycle_attempt: "filter lifecycle (snd (attempt w q)) = [Get home_url]"
proof -
  have a: "filter lifecycle (snd (submit_query w q)) = [Get home_url]"
    using quiet_find [of w] quiet_perform [of w _ q]
    unfolding submit_query_def quiet_def
    by (simp add: snd_bnd lifecycle_load_home split: sum.splits)
  have b: "quiet (bnd (confirm_results w) (\<lambda>_. bnd (load_all_content w) (\<lambda>_. persist w q)))"
    by (intro quiet_bnd quiet_confirm quiet_load_all quiet_persist)
  show ?thesis
    using a b unfolding attempt_def quiet_def
    by (simp add: snd_bnd split: sum.splits)
qed

lemma is_Get_lifecycle: "is_Get ev \<Longrightarrow> lifecycle ev"
  by (cases ev) simp_all

lemma is_Run_lifecycle: "is_Run ev \<Longrightarrow> lifecycle ev"
  by (cases ev) simp_all

lemma filter_Get_lifecycle: "filter is_Get t = filter is_Get (filter lifecycle t)"
  by (induction t) (auto dest: is_Get_lifecycle)

lemma filter_Run_lifecycle: "filter is_Run t = filter is_Run (filter lifecycle t)"
  by (induction t) (auto dest: is_Run_lifecycle)

lemma attempts_attempt: "attempts_made (snd (attempt w q)) = 1"
  unfolding attempts_made_def
  by (subst filter_Get_lifecycle) (simp add: lifecycle_attempt)

lemma no_run_attempt: "filter is_Run (snd (attempt w q)) = []"
  by (subst filter_Run_lifecycle) (simp add: lifecycle_attempt)

lemma attempts_append [simp]: "attempts_made (s @ t) = attempts_made s + attempts_made t"
  by (simp add: attempts_made_def)

lemma attempts_finally [simp]: "attempts_made (finally_clause m rc) = 0"
  by (simp add: attempts_made_def finally_clause_def)

lemma no_run_finally [simp]: "filter is_Run (finally_clause m rc) = []"
  by (simp add: finally_clause_def)

lemma attempts_simple [simp]:
  "attempts_made [] = 0" "attempts_made (Log l s # t) = attempts_made t"
  "attempts_made (Sleep n # t) = attempts_made t"
  by (simp_all add: attempts_made_def)

section \<open>The retry loop\<close>

lemma retry_loop_exhausted:
  "\<forall>k. rc \<le> k \<and> k \<le> m \<longrightarrow> isl (fst (attempt (worlds k) q)) \<Longrightarrow> rc \<le> m + 1 \<Longrightarrow>
   fst (retry_loop worlds q m rc) = Inr None \<and>
   attempts_made (snd (retry_loop worlds q m rc)) = nat (m + 1 - rc)"
proof (induction worlds q m rc rule: retry_loop.induct)
  case (1 worlds q m rc)
  show ?case
  proof (cases "rc \<le> m")
    case False
    with "1.prems" show ?thesis by (simp add: retry_loop.simps)
  next
    case True
    with "1.prems" have "isl (fst (attempt (worlds rc) q))" by simp
    then obtain e t where att: "attempt (worlds rc) q = (Inl e, t)"
      by (cases "attempt (worlds rc) q") (auto simp: isl_def)
    have one: "attempts_made t = 1"
      using attempts_attempt [of "worlds rc" q] att by simp
    show ?thesis
    proof (cases "rc + 1 \<le> m")
      case more: True
      have "fst (retry_loop worlds q m (rc + 1)) = Inr None \<and>
            attempts_made (snd (retry_loop worlds q m (rc + 1))) = nat (m + 1 - (rc + 1))"
        using "1.IH" [OF True att [symmetric] refl refl more] "1.prems" more by simp
      with True more att one show ?thesis
        by (subst (1 2) retry_loop.simps) (simp add: Let_def nat_diff_distrib)
    next
      case last: False
      with True have "m = rc" by simp
      with True last att one show ?thesis
        by (subst (1 2) retry_loop.simps) (simp add: Let_def)
    qed
  qed
qed

lemma retry_loop_returns:
  "rc \<le> k \<Longrightarrow> k \<le> m \<Longrightarrow> \<forall>j. rc \<le> j \<and> j < k \<longrightarrow> isl (fst (attempt (worlds j) q)) \<Longrightarrow>
   fst (attempt (worlds k) q) = Inr r \<Longrightarrow>
   fst (retry_loop worlds q m rc) = Inr r \<and>
   attempts_made (snd (retry_loop worlds q m rc)) = nat (k + 1 - rc)"
proof (induction worlds q m rc rule: retry_loop.induct)
  case (1 worlds q m rc)
  from "1.prems" have le: "rc \<le> m" by simp
  show ?case
  proof (cases "rc = k")
    case True
    with "1.prems" obtain t where att: "attempt (worlds rc) q = (Inr r, t)"
      by (cases "attempt (worlds rc) q") auto
    have one: "attempts_made t = 1"
      using attempts_attempt [of "worlds rc" q] att by simp
    from le att one True show ?thesis
      by (subst (1 2) retry_loop.simps) simp
  next
    case False
    with "1.prems" have lt: "rc < k" by simp
    with "1.prems" have "isl (fst (attempt (worlds rc) q))" by simp
    then obtain e t where att: "attempt (worlds rc) q = (Inl e, t)"
      by (cases "attempt (worlds rc) q") (auto simp: isl_def)
    have one: "attempts_made t = 1"
      using attempts_attempt [of "worlds rc" q] att by simp
    from lt "1.prems" have more: "rc + 1 \<le> m" by simp
    have "fst (retry_loop worlds q m (rc + 1)) = Inr r \<and>
          attempts_made (snd (retry_loop worlds q m (rc + 1))) = nat (k + 1 - (rc + 1))"
      using "1.IH" [OF le att [symmetric] refl refl more] "1.prems" lt by simp
    with le more att one lt show ?thesis
      by (subst (1 2) retry_loop.simps) (simp add: Let_def nat_diff_distrib)
  qed
qed

lemma no_run_retry_loop: "filter is_Run (snd (retry_loop worlds q m rc)) = []"
proof (induction worlds q m rc rule: retry_loop.induct)
  case (1 worlds q m rc)
  show ?case
  proof (cases "attempt (worlds rc) q")
    case (Pair res t)
    have t: "filter is_Run t = []"
      using no_run_attempt [of "worlds rc" q] Pair by simp
    show ?thesis
    proof (cases res)
      case (Inr saved)
      with Pair t show ?thesis
        by (subst retry_loop.simps) simp
    next
      case (Inl e)
      show ?thesis
      proof (cases "rc \<le> m \<and> rc + 1 \<le> m")
        case True
        then have le: "rc \<le> m" and more: "rc + 1 \<le> m" by simp_all
        from Pair Inl have att: "attempt (worlds rc) q = (Inl e, t)" by simp
        have "filter is_Run (snd (retry_loop worlds q m (rc + 1))) = []"
          by (rule "1.IH" [OF le att [symmetric] refl refl more])
        with True Pair Inl t show ?thesis
          by (subst retry_loop.simps) (simp add: Let_def)
      next
        case False
        with Pair Inl t show ?thesis
          by (subst retry_loop.simps) (auto simp: Let_def)
      qed
    qed
  qed
qed

lemma no_run_search: "filter is_Run (snd (search_and_save_page worlds q m)) = []"
  unfolding search_and_save_page_def
  by (simp add: snd_bnd no_run_retry_loop)

lemma fst_search: "fst (search_and_save_page worlds q m) = fst (retry_loop worlds q m 0)"
  by (simp add: search_and_save_page_def fst_bnd)

lemma attempts_search:
  "attempts_made (snd (search_and_save_page worlds q m)) =
   attempts_made (snd (retry_loop worlds q m 0))"
  by (simp add: search_and_save_page_def snd_bnd attempts_made_def)

lemma attempt_split: "attempt w q = bnd (reach_persist w q) (\<lambda>_. persist w q)"
  by (simp add: attempt_def reach_persist_def bnd_assoc)

section \<open>Page persistence\<close>

lemma fst_verify_files:
  "fst (verify_files w p shot) =
     (if exists_r w p then
        (case getsize_r w p of
           Inl e \<Rightarrow> Inl e
         | Inr n \<Rightarrow> if 0 < n then Inr (Some \<lparr>html_path = p, screenshot_path = shot\<rparr>) else Inr None)
      else Inr None)"
  by (simp add: verify_files_def fst_bnd split: sum.splits)

lemma fst_save_webpage_body:
  "fst (save_webpage_body w q ts) =
     (case fst (save_files w q ts) of
        Inl e \<Rightarrow> Inl e
      | Inr shot \<Rightarrow> fst (verify_files w (html_filepath_of w q) shot))"
  by (simp add: save_webpage_body_def fst_bnd)

lemma fst_save_webpage:
  "fst (save_webpage w q ts) =
     (case fst (save_webpage_body w q ts) of Inl e \<Rightarrow> Inr None | Inr r \<Rightarrow> Inr r)"
  by (simp add: save_webpage_def fst_try fst_bnd split: sum.splits)

lemma snd_verify_missing:
  "\<not> exists_r w p \<Longrightarrow> snd (verify_files w p shot) = [Log ERROR ''HTML file was not created'']"
  by (simp add: verify_files_def snd_bnd)

lemma snd_verify_empty:
  "exists_r w p \<Longrightarrow> getsize_r w p = Inr 0 \<Longrightarrow>
   snd (verify_files w p shot) = [Log WARNING ''HTML file was created but is empty'']"
  by (simp add: verify_files_def snd_bnd)

lemma save_webpage_verified:
  "fst (save_files w q ts) = Inr shot \<Longrightarrow>
   \<not> isl (fst (verify_files w (html_filepath_of w q) shot)) \<Longrightarrow>
   save_webpage w q ts =
     (fst (verify_files w (html_filepath_of w q) shot),
      snd (save_files w q ts) @ snd (verify_files w (html_filepath_of w q) shot))"
  by (cases "fst (verify_files w (html_filepath_of w q) shot)")
     (simp_all add: save_webpage_def save_webpage_body_def prod_eq_iff fst_try snd_try fst_bnd snd_bnd)

lemma save_files_returns:
  assumes "fst (save_files w q ts) = Inr shot"
  shows "\<exists>page. page_source_r w = Inr page \<and>
           filter is_file_write (snd (save_files w q ts)) =
             [OpenWrite (html_filepath_of w q) ''utf-8'', Write (html_filepath_of w q) doctype_line,
              Write (html_filepath_of w q) page]"
proof (cases "page_source_r w")
  case (Inl e)
  with assms show ?thesis
    by (simp add: save_files_def Let_def fst_bnd fst_call split: option.splits)
next
  case (Inr page)
  with assms show ?thesis
    by (simp add: save_files_def Let_def fst_bnd snd_bnd fst_call html_filepath_of_def
             split: option.splits if_splits)
qed

lemma no_write_verify: "filter is_file_write (snd (verify_files w p shot)) = []"
  by (simp add: verify_files_def snd_bnd split: sum.splits)

lemma str_replace_char:
  "str_replace [x] [y] s = map (\<lambda>c. if c = x then y else c) s"
  by (induction s) simp_all

lemma char_of_48: "char_of (48 :: int) = CHR ''0''"
  by code_simp

lemma digits_below_10: "n < 10 \<Longrightarrow> digits n = [char_of (48 + n)]"
  by (simp add: digits.simps [of n] digit_char_def)

lemma digits_from_10:
  "10 \<le> n \<Longrightarrow> digits n = digits (n div 10) @ [char_of (48 + n mod 10)]"
  by (simp add: digits.simps [of n] digit_char_def)

lemma digits_2:
  assumes "10 \<le> n" and "n < 100"
  shows "digits n = [char_of (48 + n div 10), char_of (48 + n mod 10)]"
proof -
  from assms have "n div 10 < 10" by simp
  with assms show ?thesis by (simp add: digits_from_10 digits_below_10)
qed

lemma digits_3:
  assumes "100 \<le> n" and "n < 1000"
  shows "digits n =
    [char_of (48 + n div 100), char_of (48 + n div 10 mod 10), char_of (48 + n mod 10)]"
proof -
  from assms have a: "10 \<le> n div 10" "n div 10 < 100" "10 \<le> n" by simp_all
  have "n div 10 div 10 = n div 100" by (simp add: zdiv_zmult2_eq)
  with a show ?thesis by (simp add: digits_from_10 [of n] digits_2)
qed

lemma digits_4:
  assumes "1000 \<le> n" and "n < 10000"
  shows "digits n =
    [char_of (48 + n div 1000), char_of (48 + n div 100 mod 10),
     char_of (48 + n div 10 mod 10), char_of (48 + n mod 10)]"
proof -
  from assms have a: "100 \<le> n div 10" "n div 10 < 1000" "10 \<le> n" by simp_all
  have "n div 10 div 100 = n div 1000" "n div 10 div 10 = n div 100"
    by (simp_all add: zdiv_zmult2_eq)
  with a show ?thesis by (simp add: digits_from_10 [of n] digits_3)
qed

lemma zero_pad_2:
  assumes "0 \<le> n" and "n \<le> 99"
  shows "zero_pad 2 n = [char_of (48 + n div 10), char_of (48 + n mod 10)]"
proof (cases "n < 10")
  case True
  with assms show ?thesis
    by (simp add: zero_pad_def digits_below_10 char_of_48)
next
  case False
  with assms show ?thesis
    by (simp add: zero_pad_def digits_2)
qed

lemma outputs_path:
  "path_join (path_join cwd ''outputs'') (''ticketmaster_'' @ rest) =
     (if cwd = [] \<or> last cwd = CHR ''/'' then cwd else cwd @ ''/'') @
     ''outputs/ticketmaster_'' @ rest"
  by (simp add: path_join_def)

lemma file_after_filter:
  "file_after p (filter is_file_write t) f = file_after p t f"
  by (induction p t f rule: file_after.induct) simp_all

lemma fst_persist_None:
  "fst (save_webpage w q True) = Inr None \<Longrightarrow> fst (persist w q) = Inr None"
  by (simp add: persist_def fst_bnd)

lemma probe_results_all_fail:
  "\<forall>sel\<in>set sels. presence_r w (By_CSS_SELECTOR sel) \<noteq> None \<Longrightarrow>
   probe_results w sels = (Inr False, map (\<lambda>sel. WaitPresence (By_CSS_SELECTOR sel)) sels)"
  by (induction sels) (auto simp: ret_def bnd_def emit_def)

section \<open>The entry point\<close>

lemma fst_execute_crawler: "fst (execute_crawler s) = Inr ()"
  by (simp add: execute_crawler_def fst_bnd fst_try fst_call split: sum.splits option.splits)

lemma run_execute_crawler: "filter is_Run (snd (execute_crawler s)) = [Run (crawler_command s)]"
  by (simp add: execute_crawler_def snd_bnd snd_try fst_bnd fst_call
           split: sum.splits option.splits)

lemma fst_main: "fst (main s) = Inr ()"
  by (auto simp: main_def fst_try fst_bnd Let_def fst_execute_crawler
           split: sum.splits option.splits)

section \<open>The properties of the specification\<close>

subsection \<open>C1: the retry count is respected\<close>

lemma noshow_attempt_raises:
  "fst (attempt inputless_world ''XYZ123NoShow'') =
     Inl (selenium_exn NoSuchElementException ''Could not find search input'')"
  by code_simp

text \<open>
  C1. For every non-empty query and every \<open>max_retries \<ge> 0\<close>, if every attempt (the
  attempts entered with the counter at 0 up to \<open>max_retries\<close>) raises, then
  \<open>search_and_save_page\<close> returns \<open>None\<close> after exactly \<open>max_retries + 1\<close> attempts.
\<close>

theorem retry_count_respected:
  assumes "search_query \<noteq> []" and "0 \<le> max_retries"
    and "\<forall>k. 0 \<le> k \<and> k \<le> max_retries \<longrightarrow> isl (fst (attempt (worlds k) search_query))"
  shows "fst (search_and_save_page worlds search_query max_retries) = Inr None \<and>
         attempts_made (snd (search_and_save_page worlds search_query max_retries)) =
           nat (max_retries + 1)"
  using retry_loop_exhausted [of 0 max_retries worlds search_query] assms
  by (simp add: fst_search attempts_search)

text \<open>
  The scenario of the specification: the search input is never found, with the default
  of two retries. Three attempts are made.
\<close>

theorem retry_count_respected_witness:
  "isl (fst (attempt inputless_world ''XYZ123NoShow'')) \<and>
   fst (search_and_save_page (\<lambda>_. inputless_world) ''XYZ123NoShow'' 2) = Inr None \<and>
   attempts_made (snd (search_and_save_page (\<lambda>_. inputless_world) ''XYZ123NoShow'' 2)) = 3"
  using retry_count_respected [of "''XYZ123NoShow''" 2 "\<lambda>_. inputless_world"]
  by (simp add: noshow_attempt_raises)

subsection \<open>C2: the teardown of the session\<close>

text \<open>
  C2. The specification asks that the session is closed exactly once in every run, on
  the exit of the last, exhausted attempt or of attempt zero. The script does not do
  that. The handler increments \<open>retry_count\<close> before the \<open>finally\<close> clause compares it
  with \<open>max_retries\<close>, so after a failed attempt the guard holds one attempt early.
  With \<open>max_retries = 0\<close> and a failing attempt the browser is never closed; with
  \<open>max_retries = 2\<close> and three failing attempts it is closed after the second attempt
  and the third one runs on the closed session; when the first attempt fails and the
  second one succeeds it is never closed. Each run is shown by its session events.
\<close>

theorem teardown_guard_reads_incremented_counter:
  "filter lifecycle (snd (search_and_save_page (\<lambda>_. inputless_world) ''XYZ123NoShow'' 0)) =
     [Chrome chrome_options, Get home_url] \<and>
   filter lifecycle (snd (search_and_save_page (\<lambda>_. inputless_world) ''XYZ123NoShow'' 2)) =
     [Chrome chrome_options, Get home_url, Get home_url, Quit, Get home_url] \<and>
   filter lifecycle
     (snd (search_and_save_page (\<lambda>k. if k = 0 then inputless_world else calm_world) ''Adele'' 2)) =
     [Chrome chrome_options, Get home_url, Get home_url]"
  by code_simp

subsection \<open>C3: locating the search input\<close>

text \<open>
  C3. The specification asks that the element-not-found condition is raised exactly
  when no selector yields a visible, clickable element. The script assigns
  \<open>search_input\<close> before it asks \<open>is_displayed\<close> and never resets it: when the first
  selector yields a clickable element that is not displayed (or whose \<open>is_displayed\<close>
  raises) and the other four selectors time out, all five selectors are tried, nothing
  is raised and the element that is not displayed is the one the query is typed into.
\<close>

theorem hidden_element_is_kept:
  "clickable_r hidden_input_world (By_CSS_SELECTOR (hd search_selectors)) = Inr 1 \<and>
   is_displayed_r hidden_input_world 1 = Inr False \<and>
   find_search_input hidden_input_world =
     (Inr 1, map (\<lambda>sel. WaitClickable (By_CSS_SELECTOR sel)) search_selectors) \<and>
   find_search_input stale_input_world =
     (Inr 1, map (\<lambda>sel. WaitClickable (By_CSS_SELECTOR sel)) search_selectors)"
  by code_simp

subsection \<open>C4: a capture result only for a verified file\<close>

text \<open>
  C4, as stated, fails: a capture result is not returned whenever the HTML file exists
  and is not empty after the writing. In the world below the file is written, it exists
  and has 29 bytes, the screenshot raises, and \<open>save_webpage\<close> returns \<open>None\<close>.
\<close>

theorem screenshot_failure_discards_written_html:
  "exists_r shotless_world adele_html \<and>
   getsize_r shotless_world adele_html = Inr 29 \<and>
   filter is_file_write (snd (save_webpage shotless_world ''Adele'' True)) =
     [OpenWrite adele_html ''utf-8'', Write adele_html doctype_line,
      Write adele_html ''<html></html>''] \<and>
   fst (save_webpage shotless_world ''Adele'' True) = Inr None"
  by code_simp

text \<open>
  C4, amended. \<open>save_webpage\<close> returns a capture result, which names the HTML path, if
  and only if no exception is raised while the files are written and, after that, the
  HTML file exists and its size is read and is not zero. When the files are written and
  the HTML file does not exist it returns \<open>None\<close> and logs an error, "not created"; when
  the file exists with size zero it returns \<open>None\<close> and logs a warning, "created but
  empty".
\<close>

theorem capture_result_iff_verified:
  "((\<exists>r. fst (save_webpage w q ts) = Inr (Some r)) \<longleftrightarrow>
      (\<not> isl (fst (save_files w q ts)) \<and> exists_r w (html_filepath_of w q) \<and>
       (\<exists>n. getsize_r w (html_filepath_of w q) = Inr n \<and> 0 < n))) \<and>
   (\<forall>r. fst (save_webpage w q ts) = Inr (Some r) \<longrightarrow> html_path r = html_filepath_of w q) \<and>
   (\<not> isl (fst (save_files w q ts)) \<and> \<not> exists_r w (html_filepath_of w q) \<longrightarrow>
      save_webpage w q ts =
        (Inr None, snd (save_files w q ts) @ [Log ERROR ''HTML file was not created''])) \<and>
   (\<not> isl (fst (save_files w q ts)) \<and> exists_r w (html_filepath_of w q) \<and>
    getsize_r w (html_filepath_of w q) = Inr 0 \<longrightarrow>
      save_webpage w q ts =
        (Inr None, snd (save_files w q ts) @ [Log WARNING ''HTML file was created but is empty'']))"
proof (intro conjI allI impI)
  show "(\<exists>r. fst (save_webpage w q ts) = Inr (Some r)) \<longleftrightarrow>
      (\<not> isl (fst (save_files w q ts)) \<and> exists_r w (html_filepath_of w q) \<and>
       (\<exists>n. getsize_r w (html_filepath_of w q) = Inr n \<and> 0 < n))"
    by (auto simp: fst_save_webpage fst_save_webpage_body fst_verify_files
             split: sum.splits if_splits)
next
  fix r assume "fst (save_webpage w q ts) = Inr (Some r)"
  then show "html_path r = html_filepath_of w q"
    by (auto simp: fst_save_webpage fst_save_webpage_body fst_verify_files
             split: sum.splits if_splits)
next
  assume a: "\<not> isl (fst (save_files w q ts)) \<and> \<not> exists_r w (html_filepath_of w q)"
  then obtain shot where s: "fst (save_files w q ts) = Inr shot"
    by (cases "fst (save_files w q ts)") auto
  show "save_webpage w q ts =
        (Inr None, snd (save_files w q ts) @ [Log ERROR ''HTML file was not created''])"
    using a save_webpage_verified [OF s]
    by (simp add: fst_verify_files snd_verify_missing)
next
  assume a: "\<not> isl (fst (save_files w q ts)) \<and> exists_r w (html_filepath_of w q) \<and>
    getsize_r w (html_filepath_of w q) = Inr 0"
  then obtain shot where s: "fst (save_files w q ts) = Inr shot"
    by (cases "fst (save_files w q ts)") auto
  show "save_webpage w q ts =
        (Inr None, snd (save_files w q ts) @ [Log WARNING ''HTML file was created but is empty''])"
    using a save_webpage_verified [OF s]
    by (simp add: fst_verify_files snd_verify_empty)
qed

lemma adele_path:
  "html_filepath_of calm_world ''Adele'' = adele_html"
  "html_filepath_of missing_file_world ''Adele'' = adele_html"
  "html_filepath_of empty_file_world ''Adele'' = adele_html"
  by code_simp+

lemma adele_files_written:
  "fst (save_files calm_world ''Adele'' True) = Inr (Some adele_png)"
  "fst (save_files missing_file_world ''Adele'' True) = Inr (Some adele_png)"
  "fst (save_files empty_file_world ''Adele'' True) = Inr (Some adele_png)"
  by code_simp+

lemma adele_verification:
  "exists_r calm_world adele_html" "getsize_r calm_world adele_html = Inr 29"
  "\<not> exists_r missing_file_world adele_html"
  "exists_r empty_file_world adele_html" "getsize_r empty_file_world adele_html = Inr 0"
  by (simp_all add: calm_world_def missing_file_world_def empty_file_world_def)

text \<open>The three shapes: a verified file, a missing file and an empty file.\<close>

theorem capture_result_iff_verified_witness:
  "(\<exists>r. fst (save_webpage calm_world ''Adele'' True) = Inr (Some r) \<and> html_path r = adele_html) \<and>
   save_webpage missing_file_world ''Adele'' True =
     (Inr None, snd (save_files missing_file_world ''Adele'' True) @
                [Log ERROR ''HTML file was not created'']) \<and>
   save_webpage empty_file_world ''Adele'' True =
     (Inr None, snd (save_files empty_file_world ''Adele'' True) @
                [Log WARNING ''HTML file was created but is empty''])"
proof -
  have "\<exists>r. fst (save_webpage calm_world ''Adele'' True) = Inr (Some r)"
    using capture_result_iff_verified [of calm_world "''Adele''" True]
    by (simp add: adele_path adele_files_written adele_verification)
  then obtain r where r: "fst (save_webpage calm_world ''Adele'' True) = Inr (Some r)" ..
  then have "html_path r = adele_html"
    using capture_result_iff_verified [of calm_world "''Adele''" True]
    by (simp add: adele_path)
  with r show ?thesis
    using capture_result_iff_verified [of missing_file_world "''Adele''" True]
      capture_result_iff_verified [of empty_file_world "''Adele''" True]
    by (auto simp: adele_path adele_files_written adele_verification)
qed

subsection \<open>C5: exceptions of the persistence step do not leave it\<close>

text \<open>
  C5. Whatever the world answers, \<open>save_webpage\<close> returns; and when a call of its body
  raises, what it returns is \<open>None\<close>, after one more log entry, an error with the text of
  the exception.
\<close>

theorem persistence_exceptions_contained:
  "(\<exists>r. fst (save_webpage w q ts) = Inr r) \<and>
   (\<forall>e. fst (save_webpage_body w q ts) = Inl e \<longrightarrow>
      save_webpage w q ts =
        (Inr None,
         snd (save_webpage_body w q ts) @ [Log ERROR (''Error saving webpage: '' @ str_exn e)]))"
  by (auto simp: fst_save_webpage save_webpage_def prod_eq_iff fst_try snd_try fst_bnd snd_bnd
           split: sum.splits)

lemma shotless_body_raises:
  "fst (save_webpage_body shotless_world ''Adele'' True) =
     Inl (Exn OtherException ''screenshot failed'')"
  by code_simp

theorem persistence_exceptions_contained_witness:
  "fst (save_webpage_body shotless_world ''Adele'' True) =
     Inl (Exn OtherException ''screenshot failed'') \<and>
   save_webpage shotless_world ''Adele'' True =
     (Inr None, snd (save_webpage_body shotless_world ''Adele'' True) @
                [Log ERROR ''Error saving webpage: screenshot failed''])"
  using persistence_exceptions_contained [of shotless_world "''Adele''" True]
  by (simp add: shotless_body_raises)

subsection \<open>C6: unconfirmed results are not fatal\<close>

text \<open>
  C6. When every result selector fails, the confirmation step tries them all, logs a
  warning and returns. An attempt that got as far as submitting the query, and whose
  page then loads and scrolls, goes on to the persistence step: what the attempt
  returns is what the persistence step returns, and nothing is raised by the
  confirmation.
\<close>

theorem unconfirmed_results_not_fatal:
  assumes "\<forall>sel\<in>set result_selectors. presence_r w (By_CSS_SELECTOR sel) \<noteq> None"
  shows "confirm_results w =
           (Inr (), map (\<lambda>sel. WaitPresence (By_CSS_SELECTOR sel)) result_selectors @
                    [Log WARNING ''Could not confirm results - will try to save anyway'']) \<and>
         (fst (submit_query w q) = Inr () \<and> fst (load_all_content w) = Inr () \<longrightarrow>
            attempt w q =
              (fst (persist w q),
               snd (submit_query w q) @
               map (\<lambda>sel. WaitPresence (By_CSS_SELECTOR sel)) result_selectors @
               [Log WARNING ''Could not confirm results - will try to save anyway''] @
               snd (load_all_content w) @ snd (persist w q)))"
proof -
  have c: "confirm_results w =
           (Inr (), map (\<lambda>sel. WaitPresence (By_CSS_SELECTOR sel)) result_selectors @
                    [Log WARNING ''Could not confirm results - will try to save anyway''])"
    using probe_results_all_fail [OF assms]
    by (simp add: confirm_results_def bnd_def logging_warning_def emit_def unconfirmed_warning_def)
  show ?thesis
    by (simp add: c) (simp add: attempt_def prod_eq_iff fst_bnd snd_bnd c)
qed

lemma unconfirmed_steps:
  "fst (submit_query unconfirmed_world ''Adele'') = Inr ()"
  "fst (load_all_content unconfirmed_world) = Inr ()"
  "fst (persist unconfirmed_world ''Adele'') =
     Inr (Some \<lparr>html_path = adele_html, screenshot_path = Some adele_png\<rparr>)"
  by code_simp+

theorem unconfirmed_results_not_fatal_witness:
  "presence_r unconfirmed_world (By_CSS_SELECTOR (hd result_selectors)) \<noteq> None \<and>
   Log WARNING ''Could not confirm results - will try to save anyway''
     \<in> set (snd (confirm_results unconfirmed_world)) \<and>
   fst (attempt unconfirmed_world ''Adele'') =
     Inr (Some \<lparr>html_path = adele_html, screenshot_path = Some adele_png\<rparr>)"
  using unconfirmed_results_not_fatal [of unconfirmed_world "''Adele''"]
  by (simp add: unconfirmed_steps) (simp add: unconfirmed_world_def)

subsection \<open>C7: an empty query stops the run\<close>

text \<open>
  C7. When the line read from standard input is empty (or only white space), the run
  consists of the prompt and one error log entry: no browser session is created, no
  file is written and the crawler is not started.
\<close>

theorem empty_query_short_circuits:
  assumes "input_r s = Inr line" and "strip line = []"
  shows "main s = (Inr (), [Prompt prompt_text, Log ERROR ''Search query cannot be empty''])"
  using assms
  by (simp add: main_def try_except_def bnd_def ask_def emit_def ret_def logging_error_def Let_def)

theorem empty_query_short_circuits_witness:
  "input_r blank_session = Inr ''   '' \<and> strip ''   '' = [] \<and>
   main blank_session = (Inr (), [Prompt prompt_text, Log ERROR ''Search query cannot be empty''])"
proof -
  have i: "input_r blank_session = Inr ''   ''"
    by (simp add: blank_session_def adele_session_def)
  have s: "strip ''   '' = []" by code_simp
  show ?thesis using empty_query_short_circuits [OF i s] i s by simp
qed

subsection \<open>C8: the name and the content of the HTML file\<close>

lemma taylor_saved:
  "fst (save_webpage calm_world ''Taylor Swift'' True) =
     Inr (Some \<lparr>html_path = taylor_html, screenshot_path = Some taylor_png\<rparr>)"
  by code_simp

lemma digit_chars:
  "char_of (48 :: int) = CHR ''0''" "char_of (49 :: int) = CHR ''1''"
  "char_of (50 :: int) = CHR ''2''" "char_of (51 :: int) = CHR ''3''"
  "char_of (52 :: int) = CHR ''4''" "char_of (53 :: int) = CHR ''5''"
  "char_of (54 :: int) = CHR ''6''" "char_of (55 :: int) = CHR ''7''"
  "char_of (56 :: int) = CHR ''8''" "char_of (57 :: int) = CHR ''9''"
  by code_simp+

text \<open>
  C8. For every non-empty query, when \<open>save_webpage\<close> returns a capture result, exactly
  one file was opened for writing, the HTML file. Its path is the working directory, a
  separator, \<open>outputs/\<close>, then the name: \<open>ticketmaster_\<close>, the query with each space
  replaced by an underscore and every other character kept, an underscore, the time
  stamp and \<open>.html\<close>. The time stamp is the year in decimal, two digits each for the
  month and the day, an underscore, and two digits each for the hour, the minute and the
  second of the clock's time, which is a \<open>datetime\<close>: it names the second and nothing
  finer. The file is opened as text with the encoding \<open>utf-8\<close>, and its text is the
  doctype line followed by the page source the driver gave.
\<close>

theorem html_file_name_and_content:
  assumes "search_query \<noteq> []"
    and "now w = \<lparr>year = y, month = mo, day = dy, hour = h, minute = mi, second = s\<rparr>"
    and "1 \<le> y \<and> y \<le> 9999 \<and> 1 \<le> mo \<and> mo \<le> 12 \<and> 1 \<le> dy \<and> dy \<le> 31 \<and>
         0 \<le> h \<and> h \<le> 23 \<and> 0 \<le> mi \<and> mi \<le> 59 \<and> 0 \<le> s \<and> s \<le> 59"
    and "fst (save_webpage w search_query ts) = Inr (Some r)"
  shows "html_path r =
           (if getcwd w = [] \<or> last (getcwd w) = CHR ''/'' then getcwd w else getcwd w @ ''/'') @
           ''outputs/ticketmaster_'' @
           map (\<lambda>c. if c = CHR '' '' then CHR ''_'' else c) search_query @ ''_'' @
           (if y < 10 then [char_of (48 + y)]
            else if y < 100 then [char_of (48 + y div 10), char_of (48 + y mod 10)]
            else if y < 1000 then
              [char_of (48 + y div 100), char_of (48 + y div 10 mod 10), char_of (48 + y mod 10)]
            else
              [char_of (48 + y div 1000), char_of (48 + y div 100 mod 10),
               char_of (48 + y div 10 mod 10), char_of (48 + y mod 10)]) @
           [char_of (48 + mo div 10), char_of (48 + mo mod 10),
            char_of (48 + dy div 10), char_of (48 + dy mod 10), CHR ''_'',
            char_of (48 + h div 10), char_of (48 + h mod 10),
            char_of (48 + mi div 10), char_of (48 + mi mod 10),
            char_of (48 + s div 10), char_of (48 + s mod 10)] @
           ''.html'' \<and>
         (\<exists>page. page_source_r w = Inr page \<and>
            filter is_file_write (snd (save_webpage w search_query ts)) =
              [OpenWrite (html_path r) ''utf-8'',
               Write (html_path r) (''<!DOCTYPE html>'' @ [CHR 0x0A]),
               Write (html_path r) page] \<and>
            file_after (html_path r) (snd (save_webpage w search_query ts)) None =
              Some (''utf-8'', ''<!DOCTYPE html>'' @ [CHR 0x0A] @ page))"
proof -
  from assms(4) obtain shot where sf: "fst (save_files w search_query ts) = Inr shot"
    and v: "fst (verify_files w (html_filepath_of w search_query) shot) = Inr (Some r)"
    by (auto simp: fst_save_webpage fst_save_webpage_body split: sum.splits)
  from v have p: "html_path r = html_filepath_of w search_query"
    by (auto simp: fst_verify_files split: if_splits sum.splits)
  from v have sw: "snd (save_webpage w search_query ts) =
      snd (save_files w search_query ts) @
      snd (verify_files w (html_filepath_of w search_query) shot)"
    using save_webpage_verified [OF sf] by simp
  from save_files_returns [OF sf] obtain page where
    pg: "page_source_r w = Inr page" and
    fw: "filter is_file_write (snd (save_files w search_query ts)) =
           [OpenWrite (html_filepath_of w search_query) ''utf-8'',
            Write (html_filepath_of w search_query) doctype_line,
            Write (html_filepath_of w search_query) page]" by blast
  have fl: "filter is_file_write (snd (save_webpage w search_query ts)) =
      [OpenWrite (html_path r) ''utf-8'',
       Write (html_path r) (''<!DOCTYPE html>'' @ [CHR 0x0A]),
       Write (html_path r) page]"
    using p fw by (simp add: sw no_write_verify doctype_line_def)
  have "file_after (html_path r) (filter is_file_write (snd (save_webpage w search_query ts))) None =
      Some (''utf-8'', ''<!DOCTYPE html>'' @ [CHR 0x0A] @ page)"
    by (simp add: fl)
  then have fa: "file_after (html_path r) (snd (save_webpage w search_query ts)) None =
      Some (''utf-8'', ''<!DOCTYPE html>'' @ [CHR 0x0A] @ page)"
    by (simp only: file_after_filter)
  have yr: "digits y =
           (if y < 10 then [char_of (48 + y)]
            else if y < 100 then [char_of (48 + y div 10), char_of (48 + y mod 10)]
            else if y < 1000 then
              [char_of (48 + y div 100), char_of (48 + y div 10 mod 10), char_of (48 + y mod 10)]
            else
              [char_of (48 + y div 1000), char_of (48 + y div 100 mod 10),
               char_of (48 + y div 10 mod 10), char_of (48 + y mod 10)])"
    using assms(3) by (simp add: digits_below_10 digits_2 digits_3 digits_4)
  have stamp: "strftime (now w) = digits y @
           [char_of (48 + mo div 10), char_of (48 + mo mod 10),
            char_of (48 + dy div 10), char_of (48 + dy mod 10), CHR ''_'',
            char_of (48 + h div 10), char_of (48 + h mod 10),
            char_of (48 + mi div 10), char_of (48 + mi mod 10),
            char_of (48 + s div 10), char_of (48 + s mod 10)]"
    using assms(3) by (simp add: strftime_def assms(2) zero_pad_2)
  have "html_filepath_of w search_query =
           (if getcwd w = [] \<or> last (getcwd w) = CHR ''/'' then getcwd w else getcwd w @ ''/'') @
           ''outputs/ticketmaster_'' @
           map (\<lambda>c. if c = CHR '' '' then CHR ''_'' else c) search_query @ ''_'' @
           strftime (now w) @ ''.html''"
    unfolding html_filepath_of_def outputs_dir_of_def base_filename_of_def
    by (subst append_assoc, subst outputs_path) (simp add: str_replace_char)
  with p have name: "html_path r =
           (if getcwd w = [] \<or> last (getcwd w) = CHR ''/'' then getcwd w else getcwd w @ ''/'') @
           ''outputs/ticketmaster_'' @
           map (\<lambda>c. if c = CHR '' '' then CHR ''_'' else c) search_query @ ''_'' @
           strftime (now w) @ ''.html''" by simp
  show ?thesis
    using pg fl fa by (simp only: name stamp yr) simp
qed

text \<open>
  "Taylor Swift", captured on 17 May 2024 at 10:30:05 in \<open>/home/user/scraper\<close>.
\<close>

theorem html_file_name_and_content_witness:
  "taylor_html = ''/home/user/scraper/outputs/ticketmaster_Taylor_Swift_20240517_103005.html'' \<and>
   filter is_file_write (snd (save_webpage calm_world ''Taylor Swift'' True)) =
     [OpenWrite taylor_html ''utf-8'', Write taylor_html (''<!DOCTYPE html>'' @ [CHR 0x0A]),
      Write taylor_html ''<html></html>''] \<and>
   file_after taylor_html (snd (save_webpage calm_world ''Taylor Swift'' True)) None =
     Some (''utf-8'', ''<!DOCTYPE html>'' @ [CHR 0x0A] @ ''<html></html>'')"
proof -
  have q: "''Taylor Swift'' \<noteq> []" by simp
  have n: "now calm_world =
      \<lparr>year = 2024, month = 5, day = 17, hour = 10, minute = 30, second = 5\<rparr>"
    by (simp add: calm_world_def)
  have rg: "(1::int) \<le> 2024 \<and> (2024::int) \<le> 9999 \<and> (1::int) \<le> 5 \<and> (5::int) \<le> 12 \<and>
      (1::int) \<le> 17 \<and> (17::int) \<le> 31 \<and> (0::int) \<le> 10 \<and> (10::int) \<le> 23 \<and>
      (0::int) \<le> 30 \<and> (30::int) \<le> 59 \<and> (0::int) \<le> 5 \<and> (5::int) \<le> 59" by simp
  have g: "getcwd calm_world = ''/home/user/scraper''"
    and p: "page_source_r calm_world = Inr ''<html></html>''"
    by (simp_all add: calm_world_def)
  note c = html_file_name_and_content [OF q n rg taylor_saved]
  from c have name: "taylor_html =
      ''/home/user/scraper/outputs/ticketmaster_Taylor_Swift_20240517_103005.html''"
    by (simp add: g digit_chars)
  from c p have
    "filter is_file_write (snd (save_webpage calm_world ''Taylor Swift'' True)) =
       [OpenWrite taylor_html ''utf-8'', Write taylor_html (''<!DOCTYPE html>'' @ [CHR 0x0A]),
        Write taylor_html ''<html></html>''] \<and>
     file_after taylor_html (snd (save_webpage calm_world ''Taylor Swift'' True)) None =
       Some (''utf-8'', ''<!DOCTYPE html>'' @ [CHR 0x0A] @ ''<html></html>'')"
    by auto
  with name show ?thesis by blast
qed

subsection \<open>C9: the hand-over to the crawler\<close>

text \<open>
  C9. The run of the script always ends normally, whatever the crawler does.
  \<open>execute_crawler\<close> runs one command, the interpreter with the path of \<open>crawler.py\<close>
  beside the script and nothing else, and logs its failure: a non-zero exit as an error
  of its own, any other exception as an unexpected error. When the search returns a
  capture result the crawler is started exactly once, after the search; the crawler is
  started only in such a run; and when the search returns \<open>None\<close> it is not started.
\<close>

theorem crawler_launched_after_success_only:
  "fst (main s) = Inr () \<and>
   snd (execute_crawler s) =
     [Log INFO ''Starting crawler process...'',
      Run [sys_executable s, path_join (script_dir s) ''crawler.py''],
      (case run_r s [sys_executable s, path_join (script_dir s) ''crawler.py''] of
         None \<Rightarrow> Log INFO ''Crawler process completed successfully''
       | Some e \<Rightarrow>
           if class_of e = CalledProcessError
           then Log ERROR (''Error executing crawler: '' @ str_exn e)
           else Log ERROR (''Unexpected error while executing crawler: '' @ str_exn e))] \<and>
   (\<forall>line files. input_r s = Inr line \<and> strip line \<noteq> [] \<and>
      fst (search_and_save_page (worlds_of s) (strip line) 2) = Inr (Some files) \<longrightarrow>
      filter is_Run (snd (main s)) =
        [Run [sys_executable s, path_join (script_dir s) ''crawler.py'']] \<and>
      snd (main s) =
        Prompt prompt_text # snd (search_and_save_page (worlds_of s) (strip line) 2) @
        snd (execute_crawler s)) \<and>
   (filter is_Run (snd (main s)) \<noteq> [] \<longrightarrow>
      (\<exists>line files. input_r s = Inr line \<and> strip line \<noteq> [] \<and>
         fst (search_and_save_page (worlds_of s) (strip line) 2) = Inr (Some files))) \<and>
   (\<forall>line. input_r s = Inr line \<and>
      fst (search_and_save_page (worlds_of s) (strip line) 2) = Inr None \<longrightarrow>
      filter is_Run (snd (main s)) = [])"
proof (intro conjI allI impI)
  show "fst (main s) = Inr ()" by (rule fst_main)
next
  show "snd (execute_crawler s) =
     [Log INFO ''Starting crawler process...'',
      Run [sys_executable s, path_join (script_dir s) ''crawler.py''],
      (case run_r s [sys_executable s, path_join (script_dir s) ''crawler.py''] of
         None \<Rightarrow> Log INFO ''Crawler process completed successfully''
       | Some e \<Rightarrow>
           if class_of e = CalledProcessError
           then Log ERROR (''Error executing crawler: '' @ str_exn e)
           else Log ERROR (''Unexpected error while executing crawler: '' @ str_exn e))]"
    by (simp add: execute_crawler_def crawler_command_def snd_bnd snd_try fst_bnd fst_call
             split: option.splits)
next
  fix line files
  assume a: "input_r s = Inr line \<and> strip line \<noteq> [] \<and>
      fst (search_and_save_page (worlds_of s) (strip line) 2) = Inr (Some files)"
  then show tr: "snd (main s) =
      Prompt prompt_text # snd (search_and_save_page (worlds_of s) (strip line) 2) @
      snd (execute_crawler s)"
    by (simp add: main_def snd_try snd_bnd fst_bnd Let_def fst_execute_crawler)
  show "filter is_Run (snd (main s)) =
      [Run [sys_executable s, path_join (script_dir s) ''crawler.py'']]"
    by (simp add: tr no_run_search run_execute_crawler crawler_command_def)
next
  assume r: "filter is_Run (snd (main s)) \<noteq> []"
  show "\<exists>line files. input_r s = Inr line \<and> strip line \<noteq> [] \<and>
         fst (search_and_save_page (worlds_of s) (strip line) 2) = Inr (Some files)"
  proof (cases "input_r s")
    case (Inl e)
    with r show ?thesis
      by (simp add: main_def snd_try snd_bnd fst_bnd)
  next
    case (Inr line)
    show ?thesis
    proof (cases "strip line = []")
      case True
      with r Inr show ?thesis
        by (simp add: main_def snd_try snd_bnd fst_bnd Let_def)
    next
      case False
      show ?thesis
      proof (cases "fst (search_and_save_page (worlds_of s) (strip line) 2)")
        case (Inl e)
        with r Inr False show ?thesis
          by (simp add: main_def snd_try snd_bnd fst_bnd Let_def no_run_search)
      next
        case found: (Inr saved)
        show ?thesis
        proof (cases saved)
          case None
          with r Inr False found show ?thesis
            by (simp add: main_def snd_try snd_bnd fst_bnd Let_def no_run_search)
        next
          case (Some files)
          with Inr False found show ?thesis by simp
        qed
      qed
    qed
  qed
next
  fix line
  assume a: "input_r s = Inr line \<and>
      fst (search_and_save_page (worlds_of s) (strip line) 2) = Inr None"
  then show "filter is_Run (snd (main s)) = []"
    by (simp add: main_def snd_try snd_bnd fst_bnd Let_def no_run_search)
qed

lemma sample_searches:
  "fst (search_and_save_page (worlds_of adele_session) (strip ''Adele'') 2) =
     Inr (Some \<lparr>html_path = adele_html, screenshot_path = Some adele_png\<rparr>)"
  "fst (search_and_save_page (worlds_of noshow_session) (strip ''XYZ123NoShow'') 2) = Inr None"
  by code_simp+

lemma sample_sessions:
  "input_r adele_session = Inr ''Adele''" "strip ''Adele'' \<noteq> []"
  "input_r noshow_session = Inr ''XYZ123NoShow''"
  "sys_executable adele_session = ''/usr/bin/python3''"
  "path_join (script_dir adele_session) ''crawler.py'' = ''/home/user/scraper/crawler.py''"
  by code_simp+

text \<open>
  The two scenarios of the specification: "Adele" is captured and the crawler is started
  once, here ending with a non-zero status; "XYZ123NoShow" is never captured and the
  crawler is not started.
\<close>

theorem crawler_launched_after_success_only_witness:
  "run_r adele_session [''/usr/bin/python3'', ''/home/user/scraper/crawler.py''] =
     Some crawler_exit_1 \<and>
   fst (main adele_session) = Inr () \<and>
   filter is_Run (snd (main adele_session)) =
     [Run [''/usr/bin/python3'', ''/home/user/scraper/crawler.py'']] \<and>
   filter is_Run (snd (main noshow_session)) = []"
proof -
  have r: "run_r adele_session [''/usr/bin/python3'', ''/home/user/scraper/crawler.py''] =
      Some crawler_exit_1"
    by (simp add: adele_session_def)
  have a: "fst (main adele_session) = Inr () \<and>
           filter is_Run (snd (main adele_session)) =
             [Run [sys_executable adele_session, path_join (script_dir adele_session) ''crawler.py'']]"
    using crawler_launched_after_success_only [of adele_session]
      sample_searches(1) sample_sessions(1,2)
    by blast
  have n: "filter is_Run (snd (main noshow_session)) = []"
    using crawler_launched_after_success_only [of noshow_session]
      sample_searches(2) sample_sessions(3)
    by blast
  show ?thesis
    using r a n by (simp add: sample_sessions)
qed

subsection \<open>C10: a failed persistence is not retried\<close>

text \<open>
  C10. When an attempt reaches the persistence step without raising and \<open>save_webpage\<close>
  returns \<open>None\<close>, \<open>search_and_save_page\<close> returns \<open>None\<close> from that attempt: with the
  attempts before it having raised, the attempt entered with the counter at \<open>k\<close> is the
  last one, \<open>k + 1\<close> attempts in all, whatever \<open>max_retries\<close> still allows.
\<close>

theorem persistence_failure_not_retried:
  assumes "0 \<le> k" and "k \<le> max_retries"
    and "\<forall>j. 0 \<le> j \<and> j < k \<longrightarrow> isl (fst (attempt (worlds j) search_query))"
    and "fst (reach_persist (worlds k) search_query) = Inr ()"
    and "fst (save_webpage (worlds k) search_query True) = Inr None"
  shows "fst (search_and_save_page worlds search_query max_retries) = Inr None \<and>
         attempts_made (snd (search_and_save_page worlds search_query max_retries)) = nat (k + 1)"
proof -
  have "fst (attempt (worlds k) search_query) = Inr None"
    using assms(4) fst_persist_None [OF assms(5)]
    by (simp add: attempt_split fst_bnd)
  then show ?thesis
    using retry_loop_returns [of 0 k max_retries worlds search_query None] assms(1-3)
    by (simp add: fst_search attempts_search)
qed

lemma second_attempt_unsaved:
  "fst (reach_persist missing_file_world ''Adele'') = Inr ()"
  "fst (save_webpage missing_file_world ''Adele'' True) = Inr None"
  "isl (fst (attempt inputless_world ''Adele''))"
  by code_simp+

text \<open>
  The first attempt raises, the second one saves a file that is then missing: two
  attempts are made, of the three that two retries allow.
\<close>

theorem persistence_failure_not_retried_witness:
  "fst (search_and_save_page (\<lambda>k. if k = 0 then inputless_world else missing_file_world)
          ''Adele'' 2) = Inr None \<and>
   attempts_made (snd (search_and_save_page (\<lambda>k. if k = 0 then inputless_world else missing_file_world)
          ''Adele'' 2)) = 2"
  using persistence_failure_not_retried
    [of 1 2 "\<lambda>k. if k = 0 then inputless_world else missing_file_world" "''Adele''"]
  by (simp add: second_attempt_unsaved)

end
